theory Spec2Isabelle
  imports Main
begin

text \<open>
  A model of \<^verbatim>\<open>src/server.ts\<close>: the \<^verbatim>\<open>Chat\<close> agent (the webhook endpoint with its event
  store, the chat response stream, the scheduled-task callback) and the worker's
  \<^verbatim>\<open>fetch\<close>. Handlers are functions from the state of the agent to a result and the
  state they leave; an exception is a value of \<open>error\<close>.
\<close>

section \<open>Data model of \<^verbatim>\<open>src/server.ts\<close>\<close>

subsection \<open>The \<^verbatim>\<open>events\<close> table\<close>

text \<open>
  \<^verbatim>\<open>onStart\<close> creates the table
  \<^verbatim>\<open>events(id TEXT PRIMARY KEY, type TEXT NOT NULL, action TEXT, title TEXT NOT NULL,
  description TEXT, url TEXT, actor TEXT, payload TEXT, timestamp TEXT NOT NULL)\<close>.
  A row is a record of its nine columns; an SQL \<^verbatim>\<open>NULL\<close> is \<open>None\<close>. The column
  \<^verbatim>\<open>id\<close> is bound to a JavaScript string in the only \<^verbatim>\<open>INSERT\<close> of the file, so it
  is a \<open>string\<close>. The columns carry the prefix \<open>ev_\<close> because \<open>id\<close> is a constant of HOL.
\<close>

record event_row =
  ev_id :: string
  ev_type :: "string option"
  ev_action :: "string option"
  ev_title :: "string option"
  ev_description :: "string option"
  ev_url :: "string option"
  ev_actor :: "string option"
  ev_payload :: "string option"
  ev_timestamp :: "string option"

text \<open>
  Everything the handlers can throw: \<^verbatim>\<open>JSON.parse\<close> raises a \<^verbatim>\<open>SyntaxError\<close>, the payload
  processing step rejects with an error of its own, and an SQL statement fails when the
  table is missing or when the engine cannot parse the statement.
\<close>

datatype error =
    SyntaxError
  | ProcessingError string
  | SqlNoSuchTable
  | SqlSyntaxError

subsection \<open>Requests and responses\<close>

text \<open>
  Of a \<^verbatim>\<open>Request\<close> the handlers read \<^verbatim>\<open>request.method\<close>, \<^verbatim>\<open>request.headers.get(name)\<close>
  (\<^verbatim>\<open>null\<close> is \<open>None\<close>), \<^verbatim>\<open>await request.text()\<close> and \<^verbatim>\<open>new URL(request.url).pathname\<close>.
\<close>

record request =
  req_method :: string
  req_headers_get :: "string \<Rightarrow> string option"
  req_body :: string
  req_pathname :: string

text \<open>
  A response body is either the text given to \<^verbatim>\<open>new Response(text, ...)\<close> or the object
  \<^verbatim>\<open>{ success: b }\<close> given to \<^verbatim>\<open>Response.json\<close>.
\<close>

datatype response_body = TextBody string | JsonSuccess bool

record response =
  status :: nat
  body :: response_body

subsection \<open>Conversation history\<close>

text \<open>
  A message of \<^verbatim>\<open>this.messages\<close> has an id, a role, a list of parts and the creation time
  of its metadata. \<^verbatim>\<open>executeTask\<close> builds a part \<^verbatim>\<open>{ type: "text", text }\<close>; the tool-call
  and tool-result parts are those of the conversation turn of the specification: a
  tool-call carries its call id, the tool name and the input, a tool-result carries the
  call id it answers and either an output or an error text.
\<close>

datatype role = User | Assistant | Tool

datatype tool_outcome = Output string | ErrorText string

datatype part =
    TextPart string
  | ToolCallPart string string string
  | ToolResultPart string tool_outcome

record ui_message =
  msg_id :: string
  msg_role :: role
  msg_parts :: "part list"
  msg_createdAt :: "nat option"

subsection \<open>The state of one \<^verbatim>\<open>Chat\<close> agent\<close>

text \<open>
  The agent owns its SQL store (\<open>None\<close> while the table \<^verbatim>\<open>events\<close> does not exist), its
  conversation history \<^verbatim>\<open>this.messages\<close> and the lines written with \<^verbatim>\<open>console.log\<close> and
  \<^verbatim>\<open>console.error\<close>. The field \<open>world\<close> is whatever the payload processing step acts on
  outside the store.
\<close>

record 'w chat =
  events :: "event_row list option"
  messages :: "ui_message list"
  console :: "string list"
  world :: 'w

subsection \<open>What \<^verbatim>\<open>server.ts\<close> uses and does not define\<close>

text \<open>
  \<^verbatim>\<open>this.verifySignature\<close> and \<^verbatim>\<open>this.processPayload\<close> are not defined in the sources, and
  \<^verbatim>\<open>JSON.parse\<close> is the built-in of the language: they are parameters of the model.
  \<^item> \<open>verifySignature body signature\<close> is the awaited boolean.
  \<^item> \<open>JSON_parse body\<close> is \<open>None\<close> where \<^verbatim>\<open>JSON.parse\<close> throws.
  \<^item> \<open>processPayload payload w\<close> returns \<open>Some e\<close> where the promise rejects with \<open>e\<close>, and
    the world it leaves behind in either case.
\<close>

record ('p, 'w) deps =
  verifySignature :: "string \<Rightarrow> string option \<Rightarrow> bool"
  JSON_parse :: "string \<Rightarrow> 'p option"
  processPayload :: "'p \<Rightarrow> 'w \<Rightarrow> error option \<times> 'w"

section \<open>The webhook path\<close>

subsection \<open>\<^verbatim>\<open>onStart\<close>\<close>

text \<open>
  \<^verbatim>\<open>CREATE TABLE IF NOT EXISTS events\<close> makes an empty table where there is none and leaves
  an existing one alone; \<^verbatim>\<open>CREATE INDEX IF NOT EXISTS\<close> changes no row.
\<close>

definition onStart :: "'w chat \<Rightarrow> 'w chat" where
  "onStart s = s\<lparr>events := (case events s of None \<Rightarrow> Some [] | Some tbl \<Rightarrow> Some tbl)\<rparr>"

subsection \<open>The two SQL statements of \<^verbatim>\<open>handleEvent\<close>\<close>

text \<open>\<^verbatim>\<open>SELECT id FROM events WHERE id = ${eventId}\<close>: the ids of the matching rows.\<close>

definition select_id :: "event_row list \<Rightarrow> string \<Rightarrow> string list" where
  "select_id tbl eventId = map ev_id (filter (\<lambda>r. ev_id r = eventId) tbl)"

text \<open>
  The second statement is the tagged template
  \<^verbatim>\<open>INSERT INTO events (id, ...) VALUES (${eventId}, ...)\<close>. The two ellipses are characters
  of the template, not code left out: the text the engine receives is
  \<^verbatim>\<open>INSERT INTO events (id, ...) VALUES (?, ...)\<close>, with \<^verbatim>\<open>eventId\<close> bound to the
  placeholder. That text is not a statement of SQL, so the engine fails to parse it,
  whatever \<^verbatim>\<open>eventId\<close> is and whatever the store holds, and no row is written.
\<close>

definition insert_event :: "string \<Rightarrow> event_row list option \<Rightarrow> error + event_row list" where
  "insert_event eventId store = Inl SqlSyntaxError"

subsection \<open>\<^verbatim>\<open>handleEvent\<close>\<close>

text \<open>
  \<^verbatim>\<open>eventId\<close> is a free variable of \<^verbatim>\<open>handleEvent\<close> in the source (no declaration of it is
  in the file), so it is an argument here. \<^verbatim>\<open>type\<close> is the value of
  \<^verbatim>\<open>request.headers.get("X-Event-Type")\<close>, which may be \<^verbatim>\<open>null\<close>; the body of the function
  does not read it. The result is the exception thrown (\<open>Inl\<close>) or the normal return, with
  the state the call leaves behind: what a call did before it threw stays done.
\<close>

definition handleEvent ::
  "('p, 'w) deps \<Rightarrow> string \<Rightarrow> string option \<Rightarrow> 'p \<Rightarrow> 'w chat \<Rightarrow> (error + unit) \<times> 'w chat" where
  "handleEvent d eventId type payload s =
     (case events s of
        None \<Rightarrow> (Inl SqlNoSuchTable, s)
      | Some tbl \<Rightarrow>
          let existing = select_id tbl eventId in
          if length existing > 0 then
            (Inr (), s\<lparr>console := console s @ [''Event '' @ eventId @ '' already processed, skipping'']\<rparr>)
          else
            (case processPayload d payload (world s) of
               (Some e, w) \<Rightarrow> (Inl e, s\<lparr>world := w\<rparr>)
             | (None, w) \<Rightarrow>
                 (case insert_event eventId (events s) of
                    Inl e \<Rightarrow> (Inl e, s\<lparr>world := w\<rparr>)
                  | Inr tbl' \<Rightarrow> (Inr (), s\<lparr>events := Some tbl', world := w\<rparr>))))"

subsection \<open>Concurrent deliveries\<close>

text \<open>
  \<^verbatim>\<open>handleEvent\<close> has one suspension point, \<^verbatim>\<open>await this.processPayload(payload)\<close>. A
  delivery therefore runs as two segments, each without interruption: from the call to
  the \<^verbatim>\<open>await\<close> (the \<^verbatim>\<open>SELECT\<close>, the test, the call of the processing step), and from the
  \<^verbatim>\<open>await\<close> to the end (the rejection rethrown, or the \<^verbatim>\<open>INSERT\<close>). Between the two, segments
  of other deliveries may run. A delivery has arrived, or awaits with the outcome of its
  processing step, or has settled with the result of \<^verbatim>\<open>handleEvent\<close>.
\<close>

datatype phase = Arrived | Awaiting "error option" | Settled "error + unit"

definition segment ::
  "('p, 'w) deps \<Rightarrow> string \<Rightarrow> 'p \<Rightarrow> phase \<Rightarrow> 'w chat \<Rightarrow> phase \<times> 'w chat" where
  "segment d eventId payload ph s =
     (case ph of
        Arrived \<Rightarrow>
          (case events s of
             None \<Rightarrow> (Settled (Inl SqlNoSuchTable), s)
           | Some tbl \<Rightarrow>
               let existing = select_id tbl eventId in
               if length existing > 0 then
                 (Settled (Inr ()),
                  s\<lparr>console := console s @ [''Event '' @ eventId @ '' already processed, skipping'']\<rparr>)
               else
                 (case processPayload d payload (world s) of
                    (r, w) \<Rightarrow> (Awaiting r, s\<lparr>world := w\<rparr>)))
      | Awaiting r \<Rightarrow>
          (case r of
             Some e \<Rightarrow> (Settled (Inl e), s)
           | None \<Rightarrow>
               (case insert_event eventId (events s) of
                  Inl e \<Rightarrow> (Settled (Inl e), s)
                | Inr tbl' \<Rightarrow> (Settled (Inr ()), s\<lparr>events := Some tbl'\<rparr>)))
      | Settled r \<Rightarrow> (Settled r, s))"

text \<open>
  The deliveries in flight are a list of payloads with their phases, all for the same
  \<^verbatim>\<open>eventId\<close>. A schedule names, step by step, the delivery whose next segment runs; a
  step that names no delivery, or a settled one, does nothing.
\<close>

fun run_schedule ::
  "('p, 'w) deps \<Rightarrow> string \<Rightarrow> nat list \<Rightarrow> ('p \<times> phase) list \<times> 'w chat \<Rightarrow>
   ('p \<times> phase) list \<times> 'w chat" where
  "run_schedule d eventId [] c = c"
| "run_schedule d eventId (i # sched) (ds, s) =
     (if i < length ds then
        (case segment d eventId (fst (ds ! i)) (snd (ds ! i)) s of
           (ph, s') \<Rightarrow> run_schedule d eventId sched (ds[i := (fst (ds ! i), ph)], s'))
      else run_schedule d eventId sched (ds, s))"

definition arrivals :: "'p list \<Rightarrow> ('p \<times> phase) list" where
  "arrivals payloads = map (\<lambda>p. (p, Arrived)) payloads"

subsection \<open>\<^verbatim>\<open>onRequest\<close>\<close>

text \<open>
  The five steps of the source in their order: the method, the event type header, the
  signature of the raw body, \<^verbatim>\<open>JSON.parse\<close> and \<^verbatim>\<open>handleEvent\<close>, the answer. Nothing
  catches what \<^verbatim>\<open>JSON.parse\<close> or \<^verbatim>\<open>handleEvent\<close> throws, so it leaves \<^verbatim>\<open>onRequest\<close> as
  it is. \<open>eventId\<close> is passed on to \<^verbatim>\<open>handleEvent\<close>, whose free variable it is.
\<close>

definition onRequest ::
  "('p, 'w) deps \<Rightarrow> string \<Rightarrow> request \<Rightarrow> 'w chat \<Rightarrow> (error + response) \<times> 'w chat" where
  "onRequest d eventId request s =
     (if req_method request \<noteq> ''POST'' then
        (Inr \<lparr>status = 405, body = TextBody ''Method not allowed''\<rparr>, s)
      else
        let eventType = req_headers_get request ''X-Event-Type'';
            signature = req_headers_get request ''X-Signature'';
            body = req_body request
        in
          if \<not> verifySignature d body signature then
            (Inr \<lparr>status = 401, body = TextBody ''Invalid signature''\<rparr>, s)
          else
            (case JSON_parse d body of
               None \<Rightarrow> (Inl SyntaxError, s)
             | Some payload \<Rightarrow>
                 (case handleEvent d eventId eventType payload s of
                    (Inl e, s') \<Rightarrow> (Inl e, s')
                  | (Inr u, s') \<Rightarrow> (Inr \<lparr>status = 200, body = TextBody ''OK''\<rparr>, s'))))"

section \<open>The chat path and the worker\<close>

subsection \<open>\<^verbatim>\<open>executeTask\<close>\<close>

text \<open>
  \<^verbatim>\<open>this.saveMessages\<close> is a method of the base class \<^verbatim>\<open>AIChatAgent\<close> of the package
  \<^verbatim>\<open>@cloudflare/ai-chat\<close>, which is not in the sources: it is a parameter, from the list it
  is given and the agent to the agent it leaves. \<^verbatim>\<open>generateId()\<close> and \<^verbatim>\<open>new Date()\<close> are read
  from the environment at the call: they are the arguments \<open>generatedId\<close> and \<open>now\<close>. The
  schedule argument \<^verbatim>\<open>_task\<close> is unused in the source.
\<close>



subsection \<open>The worker's \<^verbatim>\<open>fetch\<close>\<close>

text \<open>
  \<^verbatim>\<open>process.env.GOOGLE_GENERATIVE_AI_API_KEY\<close> is a string or \<^verbatim>\<open>undefined\<close> (\<open>None\<close>). The
  source tests it with \<^verbatim>\<open>!!\<close> and \<^verbatim>\<open>!\<close>: of these values, \<^verbatim>\<open>undefined\<close> and the empty string
  are falsy.
\<close>

definition truthy :: "string option \<Rightarrow> bool" where
  "truthy v = (case v of None \<Rightarrow> False | Some x \<Rightarrow> x \<noteq> [])"

definition key_not_set_message :: string where
  "key_not_set_message =
     ''GOOGLE_GENERATIVE_AI_API_KEY is not set, don't forget to set it locally in .dev.vars, and use `wrangler secret bulk .dev.vars` to upload it to production''"

text \<open>
  \<^verbatim>\<open>routeAgentRequest\<close> belongs to the package \<^verbatim>\<open>agents\<close>: it is a parameter, \<open>None\<close> where
  it resolves to a falsy value. The second component of the result is the console of the
  worker after the call.
\<close>

definition fetch ::
  "(request \<Rightarrow> response option) \<Rightarrow> string option \<Rightarrow> request \<Rightarrow> string list \<Rightarrow> response \<times> string list" where
  "fetch routeAgentRequest api_key request out =
     (if req_pathname request = ''/check-open-ai-key'' then
        let hasOpenAIKey = truthy api_key in
        (\<lparr>status = 200, body = JsonSuccess hasOpenAIKey\<rparr>, out)
      else
        let out' = (if \<not> truthy api_key then out @ [key_not_set_message] else out) in
        (case routeAgentRequest request of
           Some r \<Rightarrow> (r, out')
         | None \<Rightarrow> (\<lparr>status = 404, body = TextBody ''Not found''\<rparr>, out')))"

subsection \<open>Tool-call continuation\<close>

text \<open>
  \<^verbatim>\<open>onChatMessage\<close> first runs \<^verbatim>\<open>cleanupMessages(this.messages)\<close> (``clean up incomplete tool
  calls to prevent API errors'') and then \<^verbatim>\<open>processToolCalls\<close> with the registered
  \<^verbatim>\<open>executions\<close> (``process any pending tool calls from previous messages''). Both helpers
  live in \<^verbatim>\<open>utils.ts\<close> and the handlers in \<^verbatim>\<open>tools.ts\<close>, neither of which is in the
  sources; the step is modelled as the one function the specification gives its contract
  for, \<open>resolvePending\<close>, with the handlers as a parameter. A handler takes the input of the
  call and returns its output (\<open>Inr\<close>) or fails (\<open>Inl\<close>).
\<close>

type_synonym handler = "string \<Rightarrow> string + string"

text \<open>
  Modelled from the spec: the failure policy of the tool-call continuation (the helpers of
  \<^verbatim>\<open>utils.ts\<close> are missing). A handler that fails gives an error tool-result, not a thrown
  failure.
\<close>

definition run_handler :: "handler \<Rightarrow> string \<Rightarrow> tool_outcome" where
  "run_handler f input = (case f input of Inl failure \<Rightarrow> ErrorText failure | Inr out \<Rightarrow> Output out)"

text \<open>
  Modelled from the spec: the pairing of the conversation turn (\<^verbatim>\<open>utils.ts\<close> is missing). A
  tool-call part is matched when some tool-result part of the history answers its call
  id; a tool-call part without one is pending, and a history with a pending part has a
  dangling tool call.
\<close>

definition all_parts :: "ui_message list \<Rightarrow> part list" where
  "all_parts h = concat (map msg_parts h)"

fun answers :: "string \<Rightarrow> part \<Rightarrow> bool" where
  "answers cid (ToolResultPart c r) = (c = cid)"
| "answers cid p = False"

definition has_result :: "ui_message list \<Rightarrow> string \<Rightarrow> bool" where
  "has_result h cid = list_ex (answers cid) (all_parts h)"

fun pending :: "ui_message list \<Rightarrow> part \<Rightarrow> bool" where
  "pending h (ToolCallPart cid name input) = (\<not> has_result h cid)"
| "pending h p = False"

definition dangling :: "ui_message list \<Rightarrow> bool" where
  "dangling h = list_ex (pending h) (all_parts h)"

text \<open>
  Modelled from the spec: \<^verbatim>\<open>cleanupMessages\<close> and \<^verbatim>\<open>processToolCalls\<close> of the missing
  \<^verbatim>\<open>utils.ts\<close>, as the contract \<^verbatim>\<open>resolvePending(history)\<close>. For each tool-call part lacking a
  matching tool-result part: when a handler is registered for the tool name, it is invoked
  and its result is appended to the turn as a tool-result part; when none is, the call is
  stripped from the turn. The scan covers every turn (the source processes the pending
  calls ``from previous messages''), hence the tail of the history. The result is a new
  sequence.
\<close>

fun stripped :: "(string \<rightharpoonup> handler) \<Rightarrow> ui_message list \<Rightarrow> part \<Rightarrow> bool" where
  "stripped ex h (ToolCallPart cid name input) = (\<not> has_result h cid \<and> ex name = None)"
| "stripped ex h p = False"

fun handler_results :: "(string \<rightharpoonup> handler) \<Rightarrow> ui_message list \<Rightarrow> part \<Rightarrow> part list" where
  "handler_results ex h (ToolCallPart cid name input) =
     (if has_result h cid then []
      else case ex name of
             None \<Rightarrow> []
           | Some f \<Rightarrow> [ToolResultPart cid (run_handler f input)])"
| "handler_results ex h p = []"

definition resolve_turn :: "(string \<rightharpoonup> handler) \<Rightarrow> ui_message list \<Rightarrow> ui_message \<Rightarrow> ui_message" where
  "resolve_turn ex h m =
     m\<lparr>msg_parts := filter (\<lambda>p. \<not> stripped ex h p) (msg_parts m) @
                     concat (map (handler_results ex h) (msg_parts m))\<rparr>"

definition resolvePending :: "(string \<rightharpoonup> handler) \<Rightarrow> ui_message list \<Rightarrow> ui_message list" where
  "resolvePending ex h = map (resolve_turn ex h) h"

subsection \<open>The chat response stream\<close>

text \<open>
  \<^verbatim>\<open>streamText\<close>, \<^verbatim>\<open>stepCountIs\<close> and the stream writer belong to the package \<^verbatim>\<open>ai\<close>, and the
  model answers over the network: the loop is modelled from the contract of the chat
  response streamer in the specification, and the model and the tools are parameters. One
  call of the model fails with a message (\<open>Inl\<close>) or gives a turn: its text and the tool
  calls it asks for, each a call id, a tool name and an input.
\<close>

datatype provider_error = Failed string | Aborted

datatype chunk =
    TextDelta string
  | ToolCallChunk string string string
  | ToolResultChunk string tool_outcome
  | Finish
  | ErrorChunk provider_error

record model_turn =
  mt_text :: string
  mt_calls :: "(string \<times> string \<times> string) list"

record config =
  cfg_model :: "string \<Rightarrow> ui_message list \<Rightarrow> string + model_turn"
  cfg_tools :: "string \<Rightarrow> handler"
  cfg_systemPrompt :: string
  cfg_maxSteps :: nat
  cfg_cancelSignal :: "nat \<Rightarrow> bool"

text \<open>
  Modelled from the spec: the output chunks of the streamer (\<^verbatim>\<open>streamText\<close> is missing). The
  stream ends with a completion chunk, or with a terminal error chunk when the model call
  failed or was aborted.
\<close>

fun terminal :: "chunk \<Rightarrow> bool" where
  "terminal Finish = True"
| "terminal (ErrorChunk e) = True"
| "terminal c = False"

definition well_ended :: "chunk list \<Rightarrow> bool" where
  "well_ended cs = (cs \<noteq> [] \<and> terminal (last cs) \<and> list_all (\<lambda>c. \<not> terminal c) (butlast cs))"

text \<open>
  Modelled from the spec: one model/tool round-trip of the streamer (\<^verbatim>\<open>streamText\<close> is
  missing). The tool calls of the turn are run, a failing tool giving an error result
  in-band; the turn and its results are the chunks of the step, and they extend the
  history of the next model call (a history local to the stream: the conversation history
  is not written mid-stream).
\<close>

definition call_part :: "string \<times> string \<times> string \<Rightarrow> part" where
  "call_part c = (case c of (cid, name, input) \<Rightarrow> ToolCallPart cid name input)"

definition call_chunk :: "string \<times> string \<times> string \<Rightarrow> chunk" where
  "call_chunk c = (case c of (cid, name, input) \<Rightarrow> ToolCallChunk cid name input)"

definition run_tool :: "config \<Rightarrow> string \<times> string \<times> string \<Rightarrow> string \<times> tool_outcome" where
  "run_tool cfg c = (case c of (cid, name, input) \<Rightarrow> (cid, run_handler (cfg_tools cfg name) input))"

definition step_turns :: "config \<Rightarrow> model_turn \<Rightarrow> ui_message list" where
  "step_turns cfg t =
     [\<lparr>msg_id = [], msg_role = Assistant,
       msg_parts = TextPart (mt_text t) # map call_part (mt_calls t), msg_createdAt = None\<rparr>,
      \<lparr>msg_id = [], msg_role = Tool,
       msg_parts = map (\<lambda>c. case run_tool cfg c of (cid, r) \<Rightarrow> ToolResultPart cid r) (mt_calls t),
       msg_createdAt = None\<rparr>]"

definition step_chunks :: "config \<Rightarrow> model_turn \<Rightarrow> chunk list" where
  "step_chunks cfg t =
     TextDelta (mt_text t) # map call_chunk (mt_calls t) @
     map (\<lambda>c. case run_tool cfg c of (cid, r) \<Rightarrow> ToolResultChunk cid r) (mt_calls t)"

text \<open>
  Modelled from the spec: the loop of \<^verbatim>\<open>streamText\<close> under \<^verbatim>\<open>stopWhen\<close> (the package \<^verbatim>\<open>ai\<close> is
  missing). \<open>n\<close> counts the model calls made so far. The stream stops when \<open>maxSteps\<close>
  round-trips have elapsed, when the cancel signal is triggered, when the model call
  fails, or when the model emits a turn with no further tool call; otherwise the tools are
  run and the model is called again. The result is the chunks and the number of model
  calls made.
\<close>

function stream_from :: "config \<Rightarrow> nat \<Rightarrow> ui_message list \<Rightarrow> chunk list \<times> nat" where
  "stream_from cfg n h =
     (if cfg_maxSteps cfg \<le> n then ([Finish], n)
      else if cfg_cancelSignal cfg n then ([ErrorChunk Aborted], n)
      else
        (case cfg_model cfg (cfg_systemPrompt cfg) h of
           Inl failure \<Rightarrow> ([ErrorChunk (Failed failure)], Suc n)
         | Inr t \<Rightarrow>
             if mt_calls t = [] then ([TextDelta (mt_text t), Finish], Suc n)
             else
               (case stream_from cfg (Suc n) (h @ step_turns cfg t) of
                  (rest, k) \<Rightarrow> (step_chunks cfg t @ rest, k))))"
  by pat_completeness auto
termination
  by (relation "measure (\<lambda>(cfg, n, h). cfg_maxSteps cfg - n)") auto

declare stream_from.simps [simp del]

definition stream :: "ui_message list \<Rightarrow> config \<Rightarrow> chunk list \<times> nat" where
  "stream h cfg = stream_from cfg 0 h"

subsection \<open>\<^verbatim>\<open>onChatMessage\<close>\<close>

text \<open>
  The system prompt of the source: two fixed blocks around the text of
  \<^verbatim>\<open>getSchedulePrompt({ date: new Date() })\<close>, which is a parameter.
\<close>

definition system_prompt :: "string \<Rightarrow> string" where
  "system_prompt schedulePrompt =
     ''You are a helpful assistant that can do various tasks... '' @ [CHR 0x0A, CHR 0x0A] @
     schedulePrompt @ [CHR 0x0A, CHR 0x0A] @
     ''If the user asks to schedule a task, use the schedule tool to schedule the task.'' @ [CHR 0x0A]"

text \<open>
  The body of \<^verbatim>\<open>execute\<close> in \<^verbatim>\<open>onChatMessage\<close>: the history is cleaned and its pending tool
  calls processed, and the result is streamed with the model, the tools
  \<^verbatim>\<open>{...tools, ...this.mcp.getAITools()}\<close>, the system prompt, \<^verbatim>\<open>stopWhen: stepCountIs(10)\<close>
  and the abort signal of the options. \<open>abortSignal n\<close> tells whether the signal is
  triggered when \<open>n\<close> model calls have been made.
\<close>

definition onChatMessage ::
  "(string \<rightharpoonup> handler) \<Rightarrow> (string \<Rightarrow> ui_message list \<Rightarrow> string + model_turn) \<Rightarrow>
   (string \<Rightarrow> handler) \<Rightarrow> string \<Rightarrow> (nat \<Rightarrow> bool) \<Rightarrow> 'w chat \<Rightarrow> chunk list \<times> nat" where
  "onChatMessage executions model allTools schedulePrompt abortSignal s =
     (let processedMessages = resolvePending executions (messages s) in
      stream processedMessages
        \<lparr>cfg_model = model, cfg_tools = allTools, cfg_systemPrompt = system_prompt schedulePrompt,
         cfg_maxSteps = 10, cfg_cancelSignal = abortSignal\<rparr>)"

section \<open>Concrete instances\<close>

text \<open>
  A small instance of the parameters, on which the theorems below are run: the payload is
  the body itself, only the body \<^verbatim>\<open>{}\<close> parses, the signature of a body is the body behind
  the prefix \<^verbatim>\<open>sig:\<close>, and the processing step counts its attempts in the world and fails
  on the first one.
\<close>

definition example_deps :: "(string, nat) deps" where
  "example_deps =
     \<lparr>verifySignature = (\<lambda>b sg. sg = Some (''sig:'' @ b)),
      JSON_parse = (\<lambda>b. if b = ''{}'' then Some b else None),
      processPayload = (\<lambda>p w. (if w = 0 then Some (ProcessingError ''unavailable'') else None, Suc w))\<rparr>"

text \<open>A row as the schema of \<^verbatim>\<open>onStart\<close> allows it, for a store that already holds an event.\<close>

definition example_row :: event_row where
  "example_row =
     \<lparr>ev_id = ''abc123'', ev_type = Some ''push'', ev_action = None, ev_title = Some ''event'',
      ev_description = None, ev_url = None, ev_actor = None, ev_payload = Some ''{}'',
      ev_timestamp = Some ''2025-01-01T00:00:00Z''\<rparr>"

text \<open>An agent after \<^verbatim>\<open>onStart\<close>, with an empty table, whose world is \<open>w\<close>.\<close>

definition started :: "nat \<Rightarrow> nat chat" where
  "started w = onStart \<lparr>events = None, messages = [], console = [], world = w\<rparr>"

definition webhook :: "string \<Rightarrow> (string \<times> string) list \<Rightarrow> string \<Rightarrow> request" where
  "webhook m hs b = \<lparr>req_method = m, req_headers_get = map_of hs, req_body = b, req_pathname = ''/''\<rparr>"

definition check_key_request :: request where
  "check_key_request =
     \<lparr>req_method = ''GET'', req_headers_get = (\<lambda>n. None), req_body = [],
      req_pathname = ''/check-open-ai-key''\<rparr>"



text \<open>
  A history that ends in a call of a tool awaiting a decision, and the registered
  handlers: one, for another tool.
\<close>

definition example_history :: "ui_message list" where
  "example_history =
     [\<lparr>msg_id = ''m1'', msg_role = User, msg_parts = [TextPart ''weather in Paris?''],
       msg_createdAt = Some 1\<rparr>,
      \<lparr>msg_id = ''m2'', msg_role = Assistant,
       msg_parts = [TextPart ''checking'', ToolCallPart ''call-1'' ''getWeatherInformation'' ''Paris''],
       msg_createdAt = Some 2\<rparr>]"

definition example_executions :: "string \<rightharpoonup> handler" where
  "example_executions = [''getLocalTime'' \<mapsto> (\<lambda>input. Inr ''10am'')]"

text \<open>A model that asks for a tool on every step, and the tools it can ask for.\<close>

definition eager_model :: "string \<Rightarrow> ui_message list \<Rightarrow> string + model_turn" where
  "eager_model sys h = Inr \<lparr>mt_text = ''again'', mt_calls = [(''call'', ''getLocalTime'', ''Paris'')]\<rparr>"

definition example_tools :: "string \<Rightarrow> handler" where
  "example_tools name input = (if name = ''getLocalTime'' then Inr ''10am'' else Inl ''no such tool'')"

section \<open>Properties of the store\<close>

lemma select_id_empty_iff: "select_id tbl eventId = [] \<longleftrightarrow> eventId \<notin> set (map ev_id tbl)"
  by (induction tbl) (auto simp: select_id_def)

text \<open>No call of \<^verbatim>\<open>handleEvent\<close> changes the table, however it ends.\<close>

lemma handleEvent_keeps_table: "events (snd (handleEvent d eventId type payload s)) = events s"
proof (cases "events s")
  case None
  then show ?thesis by (simp add: handleEvent_def)
next
  case (Some tbl)
  obtain r w where "processPayload d payload (world s) = (r, w)"
    by (cases "processPayload d payload (world s)")
  with Some show ?thesis
    by (cases r) (simp_all add: handleEvent_def insert_event_def Let_def)
qed

text \<open>On a table that holds the id, the call only writes its log line.\<close>

lemma handleEvent_duplicate:
  assumes "events s = Some tbl" and "eventId \<in> set (map ev_id tbl)"
  shows "handleEvent d eventId type payload s =
    (Inr (), s\<lparr>console := console s @ [''Event '' @ eventId @ '' already processed, skipping'']\<rparr>)"
proof -
  from assms(2) have "select_id tbl eventId \<noteq> []" by (simp add: select_id_empty_iff)
  with assms(1) show ?thesis by (simp add: handleEvent_def)
qed

text \<open>On a table that does not hold the id, the call ends in an exception either way.\<close>

lemma handleEvent_unseen_failed:
  assumes "events s = Some tbl" and "eventId \<notin> set (map ev_id tbl)"
    and "processPayload d payload (world s) = (Some e, w)"
  shows "handleEvent d eventId type payload s = (Inl e, s\<lparr>world := w\<rparr>)"
proof -
  from assms(2) have "select_id tbl eventId = []" by (simp add: select_id_empty_iff)
  with assms(1,3) show ?thesis by (simp add: handleEvent_def)
qed

lemma handleEvent_unseen_processed:
  assumes "events s = Some tbl" and "eventId \<notin> set (map ev_id tbl)"
    and "processPayload d payload (world s) = (None, w)"
  shows "handleEvent d eventId type payload s = (Inl SqlSyntaxError, s\<lparr>world := w\<rparr>)"
proof -
  from assms(2) have "select_id tbl eventId = []" by (simp add: select_id_empty_iff)
  with assms(1,3) show ?thesis by (simp add: handleEvent_def insert_event_def)
qed

section \<open>The ingestion handler\<close>

text \<open>
  C1. The claim is that two calls of \<^verbatim>\<open>handleEvent\<close> with the same \<^verbatim>\<open>eventId\<close> and payload
  leave exactly one stored row, the second call being a no-op that reports the event as
  already processed. The code does otherwise. For an id that is not in the table and a
  processing step that succeeds both times: the first call throws the syntax error of the
  \<^verbatim>\<open>INSERT\<close> and the table is as before; the second call finds no row, runs the processing
  step again and throws the same error. The table holds no row with the id, and nothing
  is reported as already processed.
\<close>

theorem handleEvent_twice_stores_nothing:
  assumes "events s = Some tbl" and "eventId \<notin> set (map ev_id tbl)"
    and "processPayload d payload (world s) = (None, w1)"
    and "processPayload d payload w1 = (None, w2)"
  shows "handleEvent d eventId type payload s = (Inl SqlSyntaxError, s\<lparr>world := w1\<rparr>) \<and>
         handleEvent d eventId type payload (s\<lparr>world := w1\<rparr>) = (Inl SqlSyntaxError, s\<lparr>world := w2\<rparr>) \<and>
         events (s\<lparr>world := w2\<rparr>) = Some tbl \<and>
         select_id tbl eventId = []"
proof -
  have first: "handleEvent d eventId type payload s = (Inl SqlSyntaxError, s\<lparr>world := w1\<rparr>)"
    using assms(1,2,3) by (rule handleEvent_unseen_processed)
  have "events (s\<lparr>world := w1\<rparr>) = Some tbl" using assms(1) by simp
  moreover have "processPayload d payload (world (s\<lparr>world := w1\<rparr>)) = (None, w2)"
    using assms(4) by simp
  ultimately have "handleEvent d eventId type payload (s\<lparr>world := w1\<rparr>) =
      (Inl SqlSyntaxError, s\<lparr>world := w1\<rparr>\<lparr>world := w2\<rparr>)"
    using assms(2) by (rule_tac handleEvent_unseen_processed)
  then have second: "handleEvent d eventId type payload (s\<lparr>world := w1\<rparr>) =
      (Inl SqlSyntaxError, s\<lparr>world := w2\<rparr>)" by simp
  from assms(2) have "select_id tbl eventId = []" by (simp add: select_id_empty_iff)
  with first second assms(1) show ?thesis by simp
qed

theorem handleEvent_twice_stores_nothing_witness:
  "events (started 1) = Some [] \<and>
   handleEvent example_deps ''abc123'' (Some ''push'') ''{}'' (started 1) =
     (Inl SqlSyntaxError, \<lparr>events = Some [], messages = [], console = [], world = 2\<rparr>) \<and>
   handleEvent example_deps ''abc123'' (Some ''push'') ''{}''
       \<lparr>events = Some [], messages = [], console = [], world = 2\<rparr> =
     (Inl SqlSyntaxError, \<lparr>events = Some [], messages = [], console = [], world = 3\<rparr>)"
proof -
  have a: "events (started 1) = Some []" by (simp add: started_def onStart_def)
  have b: "''abc123'' \<notin> set (map ev_id [])" by simp
  have c: "processPayload example_deps ''{}'' (world (started 1)) = (None, 2)"
    by (simp add: example_deps_def started_def onStart_def)
  have d: "processPayload example_deps ''{}'' 2 = (None, 3)"
    by (simp add: example_deps_def)
  have s: "started 1 = \<lparr>events = Some [], messages = [], console = [], world = 1\<rparr>"
    by (simp add: started_def onStart_def)
  from handleEvent_twice_stores_nothing [OF a b c d, of "Some ''push''"] a s
  show ?thesis by simp
qed

text \<open>
  C2. For an event id that is not in the table, when \<^verbatim>\<open>processPayload\<close> fails with \<open>e\<close>:
  \<^verbatim>\<open>handleEvent\<close> throws \<open>e\<close>, and the table is the one it started from, so no row was
  inserted. A retry with the same \<^verbatim>\<open>eventId\<close> is not skipped as a duplicate, and it runs
  the processing step again; but where the claim has it accepted and processed fully, the
  code, after a processing step that succeeds, throws the syntax error of the \<^verbatim>\<open>INSERT\<close>
  and stores nothing.
\<close>

theorem handleEvent_failure_then_retry_throws:
  assumes "events s = Some tbl" and "eventId \<notin> set (map ev_id tbl)"
    and "processPayload d payload (world s) = (Some e, w1)"
    and "processPayload d payload w1 = (None, w2)"
  shows "handleEvent d eventId type payload s = (Inl e, s\<lparr>world := w1\<rparr>) \<and>
         events (snd (handleEvent d eventId type payload s)) = Some tbl \<and>
         handleEvent d eventId type payload (s\<lparr>world := w1\<rparr>) = (Inl SqlSyntaxError, s\<lparr>world := w2\<rparr>) \<and>
         events (snd (handleEvent d eventId type payload (s\<lparr>world := w1\<rparr>))) = Some tbl"
proof -
  have first: "handleEvent d eventId type payload s = (Inl e, s\<lparr>world := w1\<rparr>)"
    using assms(1,2,3) by (rule handleEvent_unseen_failed)
  have "events (s\<lparr>world := w1\<rparr>) = Some tbl" using assms(1) by simp
  moreover have "processPayload d payload (world (s\<lparr>world := w1\<rparr>)) = (None, w2)"
    using assms(4) by simp
  ultimately have "handleEvent d eventId type payload (s\<lparr>world := w1\<rparr>) =
      (Inl SqlSyntaxError, s\<lparr>world := w1\<rparr>\<lparr>world := w2\<rparr>)"
    using assms(2) by (rule_tac handleEvent_unseen_processed)
  then have retry: "handleEvent d eventId type payload (s\<lparr>world := w1\<rparr>) =
      (Inl SqlSyntaxError, s\<lparr>world := w2\<rparr>)" by simp
  from first retry assms(1) show ?thesis by simp
qed

theorem handleEvent_failure_then_retry_throws_witness:
  "events (started 0) = Some [] \<and>
   processPayload example_deps ''{}'' (world (started 0)) = (Some (ProcessingError ''unavailable''), 1) \<and>
   handleEvent example_deps ''abc123'' (Some ''push'') ''{}'' (started 0) =
     (Inl (ProcessingError ''unavailable''), \<lparr>events = Some [], messages = [], console = [], world = 1\<rparr>) \<and>
   processPayload example_deps ''{}'' 1 = (None, 2) \<and>
   handleEvent example_deps ''abc123'' (Some ''push'') ''{}''
       \<lparr>events = Some [], messages = [], console = [], world = 1\<rparr> =
     (Inl SqlSyntaxError, \<lparr>events = Some [], messages = [], console = [], world = 2\<rparr>)"
proof -
  have a: "events (started 0) = Some []" by (simp add: started_def onStart_def)
  have b: "''abc123'' \<notin> set (map ev_id [])" by simp
  have c: "processPayload example_deps ''{}'' (world (started 0)) = (Some (ProcessingError ''unavailable''), 1)"
    by (simp add: example_deps_def started_def onStart_def)
  have d: "processPayload example_deps ''{}'' 1 = (None, 2)"
    by (simp add: example_deps_def)
  have s: "started 0 = \<lparr>events = Some [], messages = [], console = [], world = 0\<rparr>"
    by (simp add: started_def onStart_def)
  from handleEvent_failure_then_retry_throws [OF a b c d, of "Some ''push''"] a c d s
  show ?thesis by simp
qed

section \<open>Concurrent deliveries\<close>

text \<open>The two segments, run one after the other, are \<^verbatim>\<open>handleEvent\<close>.\<close>

lemma handleEvent_two_segments:
  "segment d eventId payload (fst (segment d eventId payload Arrived s))
      (snd (segment d eventId payload Arrived s)) =
   (Settled (fst (handleEvent d eventId type payload s)), snd (handleEvent d eventId type payload s))"
proof (cases "events s")
  case None
  then show ?thesis by (simp add: segment_def handleEvent_def)
next
  case (Some tbl)
  obtain r w where "processPayload d payload (world s) = (r, w)"
    by (cases "processPayload d payload (world s)")
  with Some show ?thesis
    by (cases r) (simp_all add: segment_def handleEvent_def insert_event_def Let_def)
qed

lemma segment_keeps_table: "events (snd (segment d eventId payload ph s)) = events s"
proof (cases ph)
  case Arrived
  show ?thesis
  proof (cases "events s")
    case None
    with Arrived show ?thesis by (simp add: segment_def)
  next
    case (Some tbl)
    obtain r w where "processPayload d payload (world s) = (r, w)"
      by (cases "processPayload d payload (world s)")
    with Arrived Some show ?thesis by (simp add: segment_def Let_def)
  qed
next
  case (Awaiting r)
  then show ?thesis by (cases r) (simp_all add: segment_def insert_event_def)
next
  case (Settled r)
  then show ?thesis by (simp add: segment_def)
qed

lemma run_schedule_keeps_table:
  "events (snd (run_schedule d eventId sched (ds, s))) = events s \<and>
   length (fst (run_schedule d eventId sched (ds, s))) = length ds"
proof (induction sched arbitrary: ds s)
  case Nil
  show ?case by simp
next
  case (Cons i sched)
  show ?case
  proof (cases "i < length ds")
    case False
    with Cons.IH [of ds s] show ?thesis by simp
  next
    case True
    obtain ph s' where seg: "segment d eventId (fst (ds ! i)) (snd (ds ! i)) s = (ph, s')"
      by (cases "segment d eventId (fst (ds ! i)) (snd (ds ! i)) s")
    from segment_keeps_table [of d eventId "fst (ds ! i)" "snd (ds ! i)" s] seg
    have "events s' = events s" by simp
    with Cons.IH [of "ds[i := (fst (ds ! i), ph)]" s'] True seg show ?thesis by simp
  qed
qed

text \<open>
  C4. The claim is that N concurrent deliveries with the same \<^verbatim>\<open>eventId\<close> leave exactly one
  stored row, the primary key deciding the race. The code does otherwise. Whatever the
  number of deliveries, their payloads and the schedule of their segments, the table
  after the run is the table before it: every delivery that passes the existence check
  and whose processing succeeds ends in the syntax error of the \<^verbatim>\<open>INSERT\<close>, which is thrown
  before the primary key is ever consulted. For an id that is not in the table, no row is
  stored, not one.
\<close>

theorem concurrent_deliveries_store_nothing:
  "events (snd (run_schedule d eventId sched (arrivals payloads, s))) = events s \<and>
   length (fst (run_schedule d eventId sched (arrivals payloads, s))) = length payloads"
  using run_schedule_keeps_table [of d eventId sched "arrivals payloads" s]
  by (simp add: arrivals_def)

theorem concurrent_deliveries_store_nothing_witness:
  "run_schedule example_deps ''abc123'' [0, Suc 0, 0, Suc 0] (arrivals [''{}'', ''{}''], started 1) =
     ([(''{}'', Settled (Inl SqlSyntaxError)), (''{}'', Settled (Inl SqlSyntaxError))],
      \<lparr>events = Some [], messages = [], console = [], world = 3\<rparr>) \<and>
   events (snd (run_schedule example_deps ''abc123'' [0, Suc 0, 0, Suc 0]
      (arrivals [''{}'', ''{}''], started 1))) = Some [] \<and>
   select_id [] ''abc123'' = []"
proof -
  have a: "events (started 1) = Some []" by (simp add: started_def onStart_def)
  have b: "run_schedule example_deps ''abc123'' [0, Suc 0, 0, Suc 0] (arrivals [''{}'', ''{}''], started 1) =
     ([(''{}'', Settled (Inl SqlSyntaxError)), (''{}'', Settled (Inl SqlSyntaxError))],
      \<lparr>events = Some [], messages = [], console = [], world = 3\<rparr>)"
    by (simp add: arrivals_def segment_def started_def onStart_def select_id_def insert_event_def
        example_deps_def)
  from concurrent_deliveries_store_nothing [of example_deps "''abc123''" "[0, Suc 0, 0, Suc 0]"
      "[''{}'', ''{}'']" "started 1"] a b
  show ?thesis by (simp add: select_id_def)
qed

section \<open>The webhook endpoint\<close>

text \<open>
  C3. \<^verbatim>\<open>onRequest\<close> answers 405 when the method is not \<^verbatim>\<open>POST\<close>; otherwise 401 when
  \<^verbatim>\<open>verifySignature\<close> rejects the raw body; both leave the agent as it was. Otherwise, for
  a body that parses: an event whose id is in the table is skipped as a duplicate and the
  answer is 200. The claim gives 200 to an accepted event as well; the code does not: for
  an id that is not in the table and a processing step that succeeds, \<^verbatim>\<open>handleEvent\<close> throws
  the syntax error of the \<^verbatim>\<open>INSERT\<close>, \<^verbatim>\<open>onRequest\<close> throws it on, and no response is returned.
\<close>

theorem onRequest_responses:
  "(req_method request \<noteq> ''POST'' \<longrightarrow>
      onRequest d eventId request s = (Inr \<lparr>status = 405, body = TextBody ''Method not allowed''\<rparr>, s)) \<and>
   (req_method request = ''POST'' \<longrightarrow>
    \<not> verifySignature d (req_body request) (req_headers_get request ''X-Signature'') \<longrightarrow>
      onRequest d eventId request s = (Inr \<lparr>status = 401, body = TextBody ''Invalid signature''\<rparr>, s)) \<and>
   (req_method request = ''POST'' \<longrightarrow>
    verifySignature d (req_body request) (req_headers_get request ''X-Signature'') \<longrightarrow>
    JSON_parse d (req_body request) = Some payload \<longrightarrow>
    events s = Some tbl \<longrightarrow>
    eventId \<in> set (map ev_id tbl) \<longrightarrow>
      onRequest d eventId request s =
        (Inr \<lparr>status = 200, body = TextBody ''OK''\<rparr>,
         s\<lparr>console := console s @ [''Event '' @ eventId @ '' already processed, skipping'']\<rparr>)) \<and>
   (req_method request = ''POST'' \<longrightarrow>
    verifySignature d (req_body request) (req_headers_get request ''X-Signature'') \<longrightarrow>
    JSON_parse d (req_body request) = Some payload \<longrightarrow>
    events s = Some tbl \<longrightarrow>
    eventId \<notin> set (map ev_id tbl) \<longrightarrow>
    processPayload d payload (world s) = (None, w) \<longrightarrow>
      onRequest d eventId request s = (Inl SqlSyntaxError, s\<lparr>world := w\<rparr>))"
proof -
  have dup: "onRequest d eventId request s =
        (Inr \<lparr>status = 200, body = TextBody ''OK''\<rparr>,
         s\<lparr>console := console s @ [''Event '' @ eventId @ '' already processed, skipping'']\<rparr>)"
    if "req_method request = ''POST''"
      and "verifySignature d (req_body request) (req_headers_get request ''X-Signature'')"
      and "JSON_parse d (req_body request) = Some payload"
      and "events s = Some tbl" and "eventId \<in> set (map ev_id tbl)"
    using that handleEvent_duplicate [of s tbl eventId d "req_headers_get request ''X-Event-Type''" payload]
    by (simp add: onRequest_def)
  have new: "onRequest d eventId request s = (Inl SqlSyntaxError, s\<lparr>world := w\<rparr>)"
    if "req_method request = ''POST''"
      and "verifySignature d (req_body request) (req_headers_get request ''X-Signature'')"
      and "JSON_parse d (req_body request) = Some payload"
      and "events s = Some tbl" and "eventId \<notin> set (map ev_id tbl)"
      and "processPayload d payload (world s) = (None, w)"
    using that handleEvent_unseen_processed [of s tbl eventId d payload w "req_headers_get request ''X-Event-Type''"]
    by (simp add: onRequest_def)
  have "req_method request \<noteq> ''POST'' \<longrightarrow>
      onRequest d eventId request s = (Inr \<lparr>status = 405, body = TextBody ''Method not allowed''\<rparr>, s)"
    by (simp add: onRequest_def)
  moreover have "req_method request = ''POST'' \<longrightarrow>
    \<not> verifySignature d (req_body request) (req_headers_get request ''X-Signature'') \<longrightarrow>
      onRequest d eventId request s = (Inr \<lparr>status = 401, body = TextBody ''Invalid signature''\<rparr>, s)"
    by (simp add: onRequest_def)
  ultimately show ?thesis using dup new by blast
qed

theorem onRequest_responses_witness:
  "onRequest example_deps ''abc123'' (webhook ''GET'' [] []) (started 1) =
     (Inr \<lparr>status = 405, body = TextBody ''Method not allowed''\<rparr>, started 1) \<and>
   onRequest example_deps ''abc123'' (webhook ''POST'' [(''X-Signature'', ''sig:{ }'')] ''{}'') (started 1) =
     (Inr \<lparr>status = 401, body = TextBody ''Invalid signature''\<rparr>, started 1) \<and>
   onRequest example_deps ''abc123''
       (webhook ''POST'' [(''X-Event-Type'', ''push''), (''X-Signature'', ''sig:{}'')] ''{}'')
       \<lparr>events = Some [example_row], messages = [], console = [], world = 2\<rparr> =
     (Inr \<lparr>status = 200, body = TextBody ''OK''\<rparr>,
      \<lparr>events = Some [example_row], messages = [],
       console = [''Event abc123 already processed, skipping''], world = 2\<rparr>) \<and>
   onRequest example_deps ''abc123''
       (webhook ''POST'' [(''X-Event-Type'', ''push''), (''X-Signature'', ''sig:{}'')] ''{}'') (started 1) =
     (Inl SqlSyntaxError, \<lparr>events = Some [], messages = [], console = [], world = 2\<rparr>)"
proof -
  let ?ok = "webhook ''POST'' [(''X-Event-Type'', ''push''), (''X-Signature'', ''sig:{}'')] ''{}''"
  let ?bad = "webhook ''POST'' [(''X-Signature'', ''sig:{ }'')] ''{}''"
  let ?s1 = "\<lparr>events = Some [example_row], messages = [], console = [], world = 2::nat\<rparr>"
  have m: "req_method (webhook ''GET'' [] []) \<noteq> ''POST''" by (simp add: webhook_def)
  have p: "req_method ?ok = ''POST''" by (simp add: webhook_def)
  have v: "verifySignature example_deps (req_body ?ok) (req_headers_get ?ok ''X-Signature'')"
    by (simp add: webhook_def example_deps_def)
  have j: "JSON_parse example_deps (req_body ?ok) = Some ''{}''"
    by (simp add: webhook_def example_deps_def)
  have q: "req_method ?bad = ''POST''" by (simp add: webhook_def)
  have n: "\<not> verifySignature example_deps (req_body ?bad) (req_headers_get ?bad ''X-Signature'')"
    by (simp add: webhook_def example_deps_def)
  have t1: "events ?s1 = Some [example_row]" by simp
  have i1: "''abc123'' \<in> set (map ev_id [example_row])" by (simp add: example_row_def)
  have t0: "events (started 1) = Some []" by (simp add: started_def onStart_def)
  have i0: "''abc123'' \<notin> set (map ev_id [])" by simp
  have pp: "processPayload example_deps ''{}'' (world (started 1)) = (None, 2)"
    by (simp add: example_deps_def started_def onStart_def)
  have s: "started 1 = \<lparr>events = Some [], messages = [], console = [], world = 1\<rparr>"
    by (simp add: started_def onStart_def)
  from onRequest_responses [where request = "webhook ''GET'' [] []" and d = example_deps
      and eventId = "''abc123''" and s = "started 1"] m
  have "onRequest example_deps ''abc123'' (webhook ''GET'' [] []) (started 1) =
     (Inr \<lparr>status = 405, body = TextBody ''Method not allowed''\<rparr>, started 1)" by blast
  moreover
  from onRequest_responses [where request = ?bad and d = example_deps
      and eventId = "''abc123''" and s = "started 1"] q n
  have "onRequest example_deps ''abc123'' ?bad (started 1) =
     (Inr \<lparr>status = 401, body = TextBody ''Invalid signature''\<rparr>, started 1)" by blast
  moreover
  from onRequest_responses [where request = ?ok and d = example_deps and payload = "''{}''"
      and eventId = "''abc123''" and s = ?s1 and tbl = "[example_row]"] p v j t1 i1
  have "onRequest example_deps ''abc123'' ?ok ?s1 =
     (Inr \<lparr>status = 200, body = TextBody ''OK''\<rparr>,
      ?s1\<lparr>console := console ?s1 @ [''Event '' @ ''abc123'' @ '' already processed, skipping'']\<rparr>)"
    by blast
  moreover
  from onRequest_responses [where request = ?ok and d = example_deps and payload = "''{}''"
      and eventId = "''abc123''" and s = "started 1" and tbl = "[]" and w = 2] p v j t0 i0 pp
  have "onRequest example_deps ''abc123'' ?ok (started 1) = (Inl SqlSyntaxError, (started 1)\<lparr>world := 2\<rparr>)"
    by blast
  ultimately show ?thesis using s by simp
qed

text \<open>
  C10. \<^verbatim>\<open>JSON.parse(body)\<close> stands unguarded after the signature check: a \<^verbatim>\<open>POST\<close> whose
  signature verifies and whose body does not parse makes \<^verbatim>\<open>onRequest\<close> throw the
  \<^verbatim>\<open>SyntaxError\<close>, so it returns no response (none of 200, 401 and 405), and the agent is
  left as it was.
\<close>

theorem onRequest_invalid_json_throws:
  assumes "req_method request = ''POST''"
    and "verifySignature d (req_body request) (req_headers_get request ''X-Signature'')"
    and "JSON_parse d (req_body request) = None"
  shows "onRequest d eventId request s = (Inl SyntaxError, s) \<and>
         (\<forall>r. fst (onRequest d eventId request s) \<noteq> Inr r)"
  using assms by (simp add: onRequest_def)

theorem onRequest_invalid_json_throws_witness:
  "req_method (webhook ''POST'' [(''X-Signature'', ''sig:{'')] ''{'') = ''POST'' \<and>
   verifySignature example_deps ''{'' (Some ''sig:{'') \<and>
   JSON_parse example_deps ''{'' = None \<and>
   onRequest example_deps ''abc123'' (webhook ''POST'' [(''X-Signature'', ''sig:{'')] ''{'') (started 1) =
     (Inl SyntaxError, started 1)"
proof -
  let ?r = "webhook ''POST'' [(''X-Signature'', ''sig:{'')] ''{''"
  have a: "req_method ?r = ''POST''" by (simp add: webhook_def)
  have b: "verifySignature example_deps (req_body ?r) (req_headers_get ?r ''X-Signature'')"
    by (simp add: webhook_def example_deps_def)
  have c: "JSON_parse example_deps (req_body ?r) = None"
    by (simp add: webhook_def example_deps_def)
  have b': "verifySignature example_deps ''{'' (Some ''sig:{'')" by (simp add: example_deps_def)
  have c': "JSON_parse example_deps ''{'' = None" by (simp add: example_deps_def)
  from onRequest_invalid_json_throws [OF a b c, of "''abc123''" "started 1"] a b' c'
  show ?thesis by simp
qed

section \<open>Scheduled tasks\<close>




section \<open>The worker entry point\<close>

text \<open>
  C9, as the code has it. The key counts as missing when it is falsy in JavaScript: absent
  from the environment, or the empty string. On \<^verbatim>\<open>/check-open-ai-key\<close> the response is
  \<^verbatim>\<open>{ success: b }\<close> with status 200, where \<open>b\<close> is false exactly when the key is absent or
  empty, and nothing is written to the console. On every other path a missing key is
  reported by one \<^verbatim>\<open>console.error\<close> line before the request is routed, and a key that is
  present and not empty writes nothing.
\<close>

theorem fetch_reports_missing_key:
  "(req_pathname request = ''/check-open-ai-key'' \<longrightarrow>
      fetch routeAgentRequest api_key request out =
        (\<lparr>status = 200, body = JsonSuccess (api_key \<noteq> None \<and> api_key \<noteq> Some [])\<rparr>, out)) \<and>
   (req_pathname request \<noteq> ''/check-open-ai-key'' \<longrightarrow>
      snd (fetch routeAgentRequest api_key request out) =
        (if api_key = None \<or> api_key = Some [] then out @ [key_not_set_message] else out))"
  by (cases api_key; cases "routeAgentRequest request") (simp_all add: fetch_def truthy_def Let_def)

theorem fetch_reports_missing_key_witness:
  "fetch (\<lambda>r. None) None check_key_request [] = (\<lparr>status = 200, body = JsonSuccess False\<rparr>, []) \<and>
   fetch (\<lambda>r. None) (Some ''k'') check_key_request [] = (\<lparr>status = 200, body = JsonSuccess True\<rparr>, []) \<and>
   snd (fetch (\<lambda>r. None) None (webhook ''GET'' [] []) []) = [key_not_set_message] \<and>
   snd (fetch (\<lambda>r. None) (Some ''k'') (webhook ''GET'' [] []) []) = []"
proof -
  have a: "req_pathname check_key_request = ''/check-open-ai-key''"
    by (simp add: check_key_request_def)
  have b: "req_pathname (webhook ''GET'' [] []) \<noteq> ''/check-open-ai-key''"
    by (simp add: webhook_def)
  from fetch_reports_missing_key [where request = check_key_request and api_key = None
      and routeAgentRequest = "\<lambda>r. None" and out = "[]"] a
  have "fetch (\<lambda>r. None) None check_key_request [] = (\<lparr>status = 200, body = JsonSuccess False\<rparr>, [])"
    by simp
  moreover
  from fetch_reports_missing_key [where request = check_key_request and api_key = "Some ''k''"
      and routeAgentRequest = "\<lambda>r. None" and out = "[]"] a
  have "fetch (\<lambda>r. None) (Some ''k'') check_key_request [] = (\<lparr>status = 200, body = JsonSuccess True\<rparr>, [])"
    by simp
  moreover
  from fetch_reports_missing_key [where request = "webhook ''GET'' [] []" and api_key = None
      and routeAgentRequest = "\<lambda>r. None" and out = "[]"] b
  have "snd (fetch (\<lambda>r. None) None (webhook ''GET'' [] []) []) = [key_not_set_message]"
    by simp
  moreover
  from fetch_reports_missing_key [where request = "webhook ''GET'' [] []" and api_key = "Some ''k''"
      and routeAgentRequest = "\<lambda>r. None" and out = "[]"] b
  have "snd (fetch (\<lambda>r. None) (Some ''k'') (webhook ''GET'' [] []) []) = []"
    by simp
  ultimately show ?thesis by blast
qed

text \<open>
  C9 as stated fails where the key is set to the empty string: the key is in the
  environment, and the endpoint answers \<^verbatim>\<open>{ success: false }\<close>.
\<close>

theorem fetch_empty_key_counterexample:
  "body (fst (fetch (\<lambda>r. None) (Some []) check_key_request [])) = JsonSuccess False \<and>
   (Some [] :: string option) \<noteq> None"
  by (simp add: fetch_def truthy_def check_key_request_def)

section \<open>Tool-call continuation\<close>

lemma has_result_iff: "has_result h cid \<longleftrightarrow> (\<exists>r. ToolResultPart cid r \<in> set (all_parts h))"
proof -
  have "answers cid p \<longleftrightarrow> (\<exists>r. p = ToolResultPart cid r)" for p
    by (cases p) auto
  then show ?thesis by (auto simp: has_result_def list_ex_iff)
qed

text \<open>The parts of a resolved history: the parts that were not stripped, and the appended results.\<close>

lemma set_all_parts_resolve:
  "set (all_parts (map (resolve_turn ex h) ms)) =
     {p \<in> set (all_parts ms). \<not> stripped ex h p} \<union>
     (\<Union>p \<in> set (all_parts ms). set (handler_results ex h p))"
  by (induction ms) (auto simp: all_parts_def resolve_turn_def)

lemma call_not_appended: "ToolCallPart cid name input \<notin> set (handler_results ex h p)"
  by (cases p) (auto split: option.splits)

lemma result_kept:
  "ToolResultPart cid r \<in> set (all_parts h) \<Longrightarrow>
   ToolResultPart cid r \<in> set (all_parts (resolvePending ex h))"
  by (simp add: resolvePending_def set_all_parts_resolve)

lemma resolvePending_no_dangling: "\<not> dangling (resolvePending ex h)"
proof
  assume "dangling (resolvePending ex h)"
  then obtain p where p: "p \<in> set (all_parts (resolvePending ex h))"
    and pe: "pending (resolvePending ex h) p"
    by (auto simp: dangling_def list_ex_iff)
  from pe obtain cid name input where pc: "p = ToolCallPart cid name input"
    and nores: "\<not> has_result (resolvePending ex h) cid"
    by (cases p) auto
  from p pc have orig: "ToolCallPart cid name input \<in> set (all_parts h)"
    and kept: "\<not> stripped ex h (ToolCallPart cid name input)"
    by (auto simp: resolvePending_def set_all_parts_resolve call_not_appended)
  show False
  proof (cases "has_result h cid")
    case True
    then obtain r where "ToolResultPart cid r \<in> set (all_parts h)"
      by (auto simp: has_result_iff)
    then have "has_result (resolvePending ex h) cid"
      using result_kept has_result_iff by blast
    with nores show False by simp
  next
    case False
    with kept obtain f where f: "ex name = Some f" by auto
    with False have "ToolResultPart cid (run_handler f input) \<in>
        set (handler_results ex h (ToolCallPart cid name input))"
      by simp
    with orig have "ToolResultPart cid (run_handler f input) \<in> set (all_parts (resolvePending ex h))"
      unfolding resolvePending_def set_all_parts_resolve by blast
    then have "has_result (resolvePending ex h) cid"
      using has_result_iff by blast
    with nores show False by simp
  qed
qed

lemma unresolved_removed:
  assumes "\<not> has_result h cid" and "ex name = None"
  shows "ToolCallPart cid name input \<notin> set (all_parts (resolvePending ex h))"
  using assms by (auto simp: resolvePending_def set_all_parts_resolve call_not_appended)

text \<open>
  C6. For a history whose last turn ends in a tool-call part that has no matching
  tool-result and no registered handler: in the history that \<open>resolvePending\<close> returns,
  that call occurs in no turn, the last turn is the resolved rest of its parts, no
  tool-call part is left without a matching tool-result, and the turns are as many as
  before.
\<close>

theorem resolvePending_strips_unresolved:
  assumes "h = hs @ [m]" and "msg_parts m = ps @ [ToolCallPart cid name input]"
    and "\<not> has_result h cid" and "ex name = None"
  shows "ToolCallPart cid name input \<notin> set (all_parts (resolvePending ex h)) \<and>
         msg_parts (last (resolvePending ex h)) =
           filter (\<lambda>p. \<not> stripped ex h p) ps @ concat (map (handler_results ex h) ps) \<and>
         \<not> dangling (resolvePending ex h) \<and>
         length (resolvePending ex h) = length h"
proof -
  have gone: "ToolCallPart cid name input \<notin> set (all_parts (resolvePending ex h))"
    using assms(3,4) by (rule unresolved_removed)
  have "last (resolvePending ex h) = resolve_turn ex h m"
    using assms(1) by (simp add: resolvePending_def)
  then have tail: "msg_parts (last (resolvePending ex h)) =
      filter (\<lambda>p. \<not> stripped ex h p) ps @ concat (map (handler_results ex h) ps)"
    using assms(2,3,4) by (simp add: resolve_turn_def)
  have len: "length (resolvePending ex h) = length h"
    by (simp add: resolvePending_def)
  from gone tail len resolvePending_no_dangling [of ex h] show ?thesis by blast
qed

theorem resolvePending_strips_unresolved_witness:
  "\<not> has_result example_history ''call-1'' \<and>
   example_executions ''getWeatherInformation'' = None \<and>
   dangling example_history \<and>
   resolvePending example_executions example_history =
     [\<lparr>msg_id = ''m1'', msg_role = User, msg_parts = [TextPart ''weather in Paris?''],
       msg_createdAt = Some 1\<rparr>,
      \<lparr>msg_id = ''m2'', msg_role = Assistant, msg_parts = [TextPart ''checking''],
       msg_createdAt = Some 2\<rparr>] \<and>
   \<not> dangling (resolvePending example_executions example_history)"
proof -
  let ?m1 = "\<lparr>msg_id = ''m1'', msg_role = User, msg_parts = [TextPart ''weather in Paris?''],
       msg_createdAt = Some 1\<rparr>"
  let ?m2 = "\<lparr>msg_id = ''m2'', msg_role = Assistant,
       msg_parts = [TextPart ''checking'', ToolCallPart ''call-1'' ''getWeatherInformation'' ''Paris''],
       msg_createdAt = Some 2\<rparr>"
  have a: "example_history = [?m1] @ [?m2]" by (simp add: example_history_def)
  have b: "msg_parts ?m2 = [TextPart ''checking''] @ [ToolCallPart ''call-1'' ''getWeatherInformation'' ''Paris'']"
    by simp
  have c: "\<not> has_result example_history ''call-1''"
    by (simp add: example_history_def has_result_def all_parts_def)
  have d: "example_executions ''getWeatherInformation'' = None"
    by (simp add: example_executions_def)
  have e: "dangling example_history"
    by (simp add: example_history_def dangling_def has_result_def all_parts_def)
  have f: "resolvePending example_executions example_history =
     [?m1, \<lparr>msg_id = ''m2'', msg_role = Assistant, msg_parts = [TextPart ''checking''],
       msg_createdAt = Some 2\<rparr>]"
    by (simp add: resolvePending_def resolve_turn_def example_history_def example_executions_def
        has_result_def all_parts_def)
  from resolvePending_strips_unresolved [where ex = example_executions
      and name = "''getWeatherInformation''", OF a b c d] c d e f
  show ?thesis by simp
qed

section \<open>The chat response stream\<close>

text \<open>The five ways one round of the loop goes.\<close>

lemma stream_from_stop:
  "cfg_maxSteps cfg \<le> n \<Longrightarrow> stream_from cfg n h = ([Finish], n)"
  by (subst stream_from.simps) simp

lemma stream_from_abort:
  "\<not> cfg_maxSteps cfg \<le> n \<Longrightarrow> cfg_cancelSignal cfg n \<Longrightarrow>
   stream_from cfg n h = ([ErrorChunk Aborted], n)"
  by (subst stream_from.simps) simp

lemma stream_from_failed:
  "\<not> cfg_maxSteps cfg \<le> n \<Longrightarrow> \<not> cfg_cancelSignal cfg n \<Longrightarrow>
   cfg_model cfg (cfg_systemPrompt cfg) h = Inl failure \<Longrightarrow>
   stream_from cfg n h = ([ErrorChunk (Failed failure)], Suc n)"
  by (subst stream_from.simps) simp

lemma stream_from_final:
  "\<not> cfg_maxSteps cfg \<le> n \<Longrightarrow> \<not> cfg_cancelSignal cfg n \<Longrightarrow>
   cfg_model cfg (cfg_systemPrompt cfg) h = Inr t \<Longrightarrow> mt_calls t = [] \<Longrightarrow>
   stream_from cfg n h = ([TextDelta (mt_text t), Finish], Suc n)"
  by (subst stream_from.simps) simp

lemma stream_from_again:
  "\<not> cfg_maxSteps cfg \<le> n \<Longrightarrow> \<not> cfg_cancelSignal cfg n \<Longrightarrow>
   cfg_model cfg (cfg_systemPrompt cfg) h = Inr t \<Longrightarrow> mt_calls t \<noteq> [] \<Longrightarrow>
   stream_from cfg n h =
     (step_chunks cfg t @ fst (stream_from cfg (Suc n) (h @ step_turns cfg t)),
      snd (stream_from cfg (Suc n) (h @ step_turns cfg t)))"
  by (subst stream_from.simps) (simp split: prod.splits)

lemma stream_from_cases:
  obtains (stop) "cfg_maxSteps cfg \<le> n"
  | (abort) "\<not> cfg_maxSteps cfg \<le> n" "cfg_cancelSignal cfg n"
  | (failed) failure where "\<not> cfg_maxSteps cfg \<le> n" "\<not> cfg_cancelSignal cfg n"
      "cfg_model cfg (cfg_systemPrompt cfg) h = Inl failure"
  | (final) t where "\<not> cfg_maxSteps cfg \<le> n" "\<not> cfg_cancelSignal cfg n"
      "cfg_model cfg (cfg_systemPrompt cfg) h = Inr t" "mt_calls t = []"
  | (again) t where "\<not> cfg_maxSteps cfg \<le> n" "\<not> cfg_cancelSignal cfg n"
      "cfg_model cfg (cfg_systemPrompt cfg) h = Inr t" "mt_calls t \<noteq> []"
  by (cases "cfg_model cfg (cfg_systemPrompt cfg) h") auto

lemma step_chunks_not_terminal: "list_all (\<lambda>c. \<not> terminal c) (step_chunks cfg t)"
  by (auto simp: step_chunks_def list_all_iff call_chunk_def split: prod.splits)

lemma well_ended_append:
  "list_all (\<lambda>c. \<not> terminal c) pre \<Longrightarrow> well_ended cs \<Longrightarrow> well_ended (pre @ cs)"
  by (auto simp: well_ended_def butlast_append)

text \<open>The number of model calls never passes \<open>maxSteps\<close>.\<close>

lemma stream_from_bounded:
  "n \<le> cfg_maxSteps cfg \<Longrightarrow>
   n \<le> snd (stream_from cfg n h) \<and> snd (stream_from cfg n h) \<le> cfg_maxSteps cfg"
proof (induction cfg n h rule: stream_from.induct)
  case (1 cfg n h)
  show ?case
  proof (cases rule: stream_from_cases [where cfg = cfg and n = n and h = h])
    case stop
    with "1.prems" show ?thesis by (simp add: stream_from_stop)
  next
    case abort
    with "1.prems" show ?thesis by (simp add: stream_from_abort)
  next
    case failed
    then show ?thesis by (simp add: stream_from_failed)
  next
    case final
    then show ?thesis by (simp add: stream_from_final)
  next
    case (again t)
    from again(1) have "Suc n \<le> cfg_maxSteps cfg" by simp
    with "1.IH" [OF again]
    have "Suc n \<le> snd (stream_from cfg (Suc n) (h @ step_turns cfg t)) \<and>
          snd (stream_from cfg (Suc n) (h @ step_turns cfg t)) \<le> cfg_maxSteps cfg" by simp
    then show ?thesis by (simp add: stream_from_again [OF again])
  qed
qed

text \<open>Every stream ends in its one terminal chunk.\<close>

lemma stream_from_well_ended: "well_ended (fst (stream_from cfg n h))"
proof (induction cfg n h rule: stream_from.induct)
  case (1 cfg n h)
  show ?case
  proof (cases rule: stream_from_cases [where cfg = cfg and n = n and h = h])
    case stop
    then show ?thesis by (simp add: stream_from_stop well_ended_def)
  next
    case abort
    then show ?thesis by (simp add: stream_from_abort well_ended_def)
  next
    case failed
    then show ?thesis by (simp add: stream_from_failed well_ended_def)
  next
    case final
    then show ?thesis by (simp add: stream_from_final well_ended_def)
  next
    case (again t)
    from "1.IH" [OF again]
    have "well_ended (fst (stream_from cfg (Suc n) (h @ step_turns cfg t)))" .
    then have "well_ended (step_chunks cfg t @ fst (stream_from cfg (Suc n) (h @ step_turns cfg t)))"
      by (rule well_ended_append [OF step_chunks_not_terminal])
    then show ?thesis by (simp add: stream_from_again [OF again])
  qed
qed

text \<open>
  C7. For every history, every set of handlers and tools, every model and every abort
  signal, the stream of \<^verbatim>\<open>onChatMessage\<close> is a finite list of chunks produced with at most
  10 model calls; it is not empty, its last chunk is terminal and no chunk before it is.
  The model is arbitrary, so this holds for one that asks for a tool on every step.
\<close>

theorem onChatMessage_stops_within_10_steps:
  "snd (onChatMessage executions model allTools schedulePrompt abortSignal s) \<le> 10 \<and>
   well_ended (fst (onChatMessage executions model allTools schedulePrompt abortSignal s))"
  using stream_from_bounded [of 0
      "\<lparr>cfg_model = model, cfg_tools = allTools, cfg_systemPrompt = system_prompt schedulePrompt,
        cfg_maxSteps = 10, cfg_cancelSignal = abortSignal\<rparr>"
      "resolvePending executions (messages s)"]
  by (simp add: onChatMessage_def stream_def stream_from_well_ended)

theorem onChatMessage_stops_within_10_steps_witness:
  "snd (onChatMessage example_executions eager_model example_tools [] (\<lambda>n. False) (started 1)) = 10 \<and>
   length (fst (onChatMessage example_executions eager_model example_tools [] (\<lambda>n. False) (started 1))) = 31 \<and>
   last (fst (onChatMessage example_executions eager_model example_tools [] (\<lambda>n. False) (started 1))) = Finish \<and>
   well_ended (fst (onChatMessage example_executions eager_model example_tools [] (\<lambda>n. False) (started 1)))"
proof -
  have a: "snd (onChatMessage example_executions eager_model example_tools [] (\<lambda>n. False) (started 1)) = 10"
    by (simp add: onChatMessage_def stream_def stream_from.simps eager_model_def)
  have b: "length (fst (onChatMessage example_executions eager_model example_tools [] (\<lambda>n. False) (started 1))) = 31"
    by (simp add: onChatMessage_def stream_def stream_from.simps eager_model_def step_chunks_def)
  have c: "last (fst (onChatMessage example_executions eager_model example_tools [] (\<lambda>n. False) (started 1))) = Finish"
    by (simp add: onChatMessage_def stream_def stream_from.simps eager_model_def step_chunks_def)
  from onChatMessage_stops_within_10_steps [of example_executions eager_model example_tools "[]"
      "\<lambda>n. False" "started 1"] a b c
  show ?thesis by simp
qed

end
